theory Spec2Isabelle
  imports Main
begin

section \<open>A set-associative cache level (cache.py)\<close>

subsection \<open>Python values: errors, integer division, ordered dictionaries\<close>

text \<open>The exceptions that the statements of \<open>cache.py\<close> can raise.\<close>

datatype error = ZeroDivisionError | KeyError | StopIteration | NameError | AttributeError

text \<open>
  Python's \<open>//\<close> and \<open>%\<close> on integers round towards minus infinity, as \<open>div\<close> and
  \<open>mod\<close> on \<open>int\<close> do, and raise on a zero divisor.
\<close>

definition py_floordiv :: "int \<Rightarrow> int \<Rightarrow> error + int" where
  "py_floordiv a b = (if b = 0 then Inl ZeroDivisionError else Inr (a div b))"

definition py_mod :: "int \<Rightarrow> int \<Rightarrow> error + int" where
  "py_mod a b = (if b = 0 then Inl ZeroDivisionError else Inr (a mod b))"

definition bind_err :: "error + 'a \<Rightarrow> ('a \<Rightarrow> error + 'b) \<Rightarrow> error + 'b" where
  "bind_err r f = (case r of Inl e \<Rightarrow> Inl e | Inr x \<Rightarrow> f x)"

text \<open>
  An \<open>OrderedDict\<close> from tags to block addresses is an association list in insertion
  order: the front is the oldest entry, the back the newest.
\<close>

type_synonym ordered_dict = "(int \<times> int) list"

definition od_contains :: "int \<Rightarrow> ordered_dict \<Rightarrow> bool" where
  "od_contains k od = (k \<in> fst ` set od)"

text \<open>\<open>od[k] = v\<close>: an existing key keeps its position, a new key goes to the end.\<close>

fun od_setitem :: "int \<Rightarrow> int \<Rightarrow> ordered_dict \<Rightarrow> ordered_dict" where
  "od_setitem k v [] = [(k, v)]"
| "od_setitem k v (p # od) = (if fst p = k then (k, v) # od else p # od_setitem k v od)"

text \<open>\<open>od.move_to_end(k)\<close>, raising \<open>KeyError\<close> on a missing key.\<close>

definition od_move_to_end :: "int \<Rightarrow> ordered_dict \<Rightarrow> error + ordered_dict" where
  "od_move_to_end k od =
     (case map_of od k of
        None \<Rightarrow> Inl KeyError
      | Some v \<Rightarrow> Inr (filter (\<lambda>p. fst p \<noteq> k) od @ [(k, v)]))"

text \<open>\<open>od.pop(k)\<close>, raising \<open>KeyError\<close> on a missing key.\<close>

definition od_pop :: "int \<Rightarrow> ordered_dict \<Rightarrow> error + (int \<times> ordered_dict)" where
  "od_pop k od =
     (case map_of od k of
        None \<Rightarrow> Inl KeyError
      | Some v \<Rightarrow> Inr (v, filter (\<lambda>p. fst p \<noteq> k) od))"

text \<open>\<open>next(iter(od.items()))\<close> and \<open>next(reversed(od.items()))\<close>.\<close>

definition od_first :: "ordered_dict \<Rightarrow> error + (int \<times> int)" where
  "od_first od = (case od of [] \<Rightarrow> Inl StopIteration | p # _ \<Rightarrow> Inr p)"

definition od_last :: "ordered_dict \<Rightarrow> error + (int \<times> int)" where
  "od_last od = (if od = [] then Inl StopIteration else Inr (last od))"

subsection \<open>The state of a level\<close>

text \<open>What a level reports to the statistics collector, in the order of the calls.\<close>

datatype event = Hit int | Miss int | Eviction int | Writeback int

text \<open>
  The attributes of a \<open>CacheLevel\<close> object. Neighbouring levels are references into a
  store of levels. \<open>cache\<close> and \<open>dirty_bits\<close> are the two dictionaries keyed by set
  index. \<open>reports\<close> is the trace of the \<open>report_*\<close> calls of this level.
\<close>

record cache_level =
  level_name :: string
  higher_level :: "nat option"
  lower_level :: "nat option"
  size_attr :: int
  block_size :: int
  associativity :: int
  eviction_policy :: string
  write_policy :: string
  num_sets :: int
  cache :: "int \<rightharpoonup> ordered_dict"
  dirty_bits :: "int \<rightharpoonup> int set"
  reports :: "event list"

text \<open>
  A method that mutates \<open>self\<close> returns its result or the exception it raised, together
  with the object as the method left it: what was mutated before a raise stays mutated.
\<close>

type_synonym 'a action = "cache_level \<Rightarrow> (error + 'a) \<times> cache_level"

definition ret :: "'a \<Rightarrow> 'a action" where
  "ret x self = (Inr x, self)"

definition throw :: "error \<Rightarrow> 'a action" where
  "throw e self = (Inl e, self)"

definition bind_action :: "'a action \<Rightarrow> ('a \<Rightarrow> 'b action) \<Rightarrow> 'b action" where
  "bind_action m f self =
     (case m self of
        (Inl e, self') \<Rightarrow> (Inl e, self')
      | (Inr x, self') \<Rightarrow> f x self')"

definition read :: "(cache_level \<Rightarrow> 'a) \<Rightarrow> 'a action" where
  "read f self = (Inr (f self), self)"

definition eval_pure :: "(cache_level \<Rightarrow> error + 'a) \<Rightarrow> 'a action" where
  "eval_pure f self = (f self, self)"

subsection \<open>Construction\<close>

text \<open>
  Modelled from the spec: the constructor of the base class \<open>Level\<close> (module \<open>utils\<close>,
  not among the sources), called first by \<open>__init__\<close>; it records the level's name and
  the references to its two neighbours.

  The rest is \<open>__init__\<close> as written: \<open>num_sets\<close> is a floor division, and the two
  dictionaries get one entry per \<open>i\<close> in \<open>range(num_sets)\<close>, which is empty when
  \<open>num_sets\<close> is not positive.
\<close>

definition init ::
  "int \<Rightarrow> int \<Rightarrow> int \<Rightarrow> string \<Rightarrow> string \<Rightarrow> string \<Rightarrow> nat option \<Rightarrow> nat option
    \<Rightarrow> error + cache_level" where
  "init size_arg block_size_arg associativity_arg eviction_policy_arg write_policy_arg
        level_name_arg higher_level_arg lower_level_arg =
     bind_err (py_floordiv size_arg (block_size_arg * associativity_arg)) (\<lambda>n.
       Inr \<lparr> level_name = level_name_arg,
             higher_level = higher_level_arg,
             lower_level = lower_level_arg,
             size_attr = size_arg,
             block_size = block_size_arg,
             associativity = associativity_arg,
             eviction_policy = eviction_policy_arg,
             write_policy = write_policy_arg,
             num_sets = n,
             cache = (\<lambda>i. if 0 \<le> i \<and> i < n then Some [] else None),
             dirty_bits = (\<lambda>i. if 0 \<le> i \<and> i < n then Some {} else None),
             reports = [] \<rparr>)"

text \<open>
  Modelled from the spec: the methods \<open>report_hit\<close>, \<open>report_miss\<close>, \<open>report_eviction\<close>
  and \<open>report_writeback\<close> of the base class \<open>Level\<close> (module \<open>utils\<close>, not among the
  sources). Each is a pure notification with no return value; here each appends one
  event to \<open>reports\<close>.
\<close>

definition report_hit :: "int \<Rightarrow> unit action" where
  "report_hit address self = (Inr (), self\<lparr>reports := reports self @ [Hit address]\<rparr>)"

definition report_miss :: "int \<Rightarrow> unit action" where
  "report_miss address self = (Inr (), self\<lparr>reports := reports self @ [Miss address]\<rparr>)"

definition report_eviction :: "int \<Rightarrow> unit action" where
  "report_eviction block_address self =
     (Inr (), self\<lparr>reports := reports self @ [Eviction block_address]\<rparr>)"

definition report_writeback :: "int \<Rightarrow> unit action" where
  "report_writeback block_address self =
     (Inr (), self\<lparr>reports := reports self @ [Writeback block_address]\<rparr>)"

subsection \<open>Address decomposition\<close>

definition calculate_index :: "cache_level \<Rightarrow> int \<Rightarrow> error + int" where
  "calculate_index self address =
     bind_err (py_floordiv address (block_size self)) (\<lambda>q. py_mod q (num_sets self))"

definition calculate_tag :: "cache_level \<Rightarrow> int \<Rightarrow> error + int" where
  "calculate_tag self address = py_floordiv address (block_size self * num_sets self)"

definition calculate_block_address :: "cache_level \<Rightarrow> int \<Rightarrow> error + int" where
  "calculate_block_address self address =
     bind_err (py_mod address (block_size self)) (\<lambda>r. Inr (address - r))"

definition calculate_block_address_from_tag_index :: "cache_level \<Rightarrow> int \<Rightarrow> int \<Rightarrow> int" where
  "calculate_block_address_from_tag_index self tag cache_index =
     (tag * num_sets self + cache_index) * block_size self"

subsection \<open>Reading and updating the two dictionaries\<close>

text \<open>\<open>self.cache[cache_index]\<close> and \<open>self.dirty_bits[cache_index]\<close>.\<close>

definition cache_at :: "int \<Rightarrow> ordered_dict action" where
  "cache_at cache_index self =
     (case cache self cache_index of
        None \<Rightarrow> (Inl KeyError, self)
      | Some od \<Rightarrow> (Inr od, self))"

definition dirty_at :: "int \<Rightarrow> int set action" where
  "dirty_at cache_index self =
     (case dirty_bits self cache_index of
        None \<Rightarrow> (Inl KeyError, self)
      | Some d \<Rightarrow> (Inr d, self))"

text \<open>The in-place updates of the object found at \<open>cache_index\<close>.\<close>

definition store_cache :: "int \<Rightarrow> ordered_dict \<Rightarrow> unit action" where
  "store_cache cache_index od self = (Inr (), self\<lparr>cache := (cache self)(cache_index \<mapsto> od)\<rparr>)"

definition store_dirty :: "int \<Rightarrow> int set \<Rightarrow> unit action" where
  "store_dirty cache_index d self =
     (Inr (), self\<lparr>dirty_bits := (dirty_bits self)(cache_index \<mapsto> d)\<rparr>)"

text \<open>\<open>self.cache[cache_index].move_to_end(tag)\<close>\<close>

definition cache_move_to_end :: "int \<Rightarrow> int \<Rightarrow> unit action" where
  "cache_move_to_end cache_index tag =
     bind_action (cache_at cache_index) (\<lambda>od.
     bind_action (eval_pure (\<lambda>_. od_move_to_end tag od)) (\<lambda>od'.
     store_cache cache_index od'))"

text \<open>\<open>self.cache[cache_index][tag] = block_address\<close>\<close>

definition cache_setitem :: "int \<Rightarrow> int \<Rightarrow> int \<Rightarrow> unit action" where
  "cache_setitem cache_index tag block_address =
     bind_action (cache_at cache_index) (\<lambda>od.
     store_cache cache_index (od_setitem tag block_address od))"

text \<open>\<open>self.cache[cache_index].pop(tag)\<close>\<close>

definition cache_pop :: "int \<Rightarrow> int \<Rightarrow> int action" where
  "cache_pop cache_index tag =
     bind_action (cache_at cache_index) (\<lambda>od.
     bind_action (eval_pure (\<lambda>_. od_pop tag od)) (\<lambda>(v, od').
     bind_action (store_cache cache_index od') (\<lambda>_. ret v)))"

text \<open>\<open>self.dirty_bits[cache_index].add(tag)\<close>\<close>

definition dirty_add :: "int \<Rightarrow> int \<Rightarrow> unit action" where
  "dirty_add cache_index tag =
     bind_action (dirty_at cache_index) (\<lambda>d. store_dirty cache_index (insert tag d))"

text \<open>\<open>self.dirty_bits[cache_index].remove(tag)\<close>, raising \<open>KeyError\<close> on a missing tag.\<close>

definition dirty_remove :: "int \<Rightarrow> int \<Rightarrow> unit action" where
  "dirty_remove cache_index tag =
     bind_action (dirty_at cache_index) (\<lambda>d.
       if tag \<in> d then store_dirty cache_index (d - {tag}) else throw KeyError)"

subsection \<open>The methods\<close>

definition is_dirty :: "cache_level \<Rightarrow> int \<Rightarrow> error + bool" where
  "is_dirty self block_address =
     bind_err (calculate_index self block_address) (\<lambda>cache_index.
     bind_err (calculate_tag self block_address) (\<lambda>tag.
       case dirty_bits self cache_index of
         None \<Rightarrow> Inl KeyError
       | Some d \<Rightarrow> Inr (tag \<in> d)))"

definition invalidate :: "int \<Rightarrow> unit action" where
  "invalidate block_address =
     bind_action (eval_pure (\<lambda>self. calculate_index self block_address)) (\<lambda>cache_index.
     bind_action (eval_pure (\<lambda>self. calculate_tag self block_address)) (\<lambda>tag.
     bind_action (cache_at cache_index) (\<lambda>od.
       if od_contains tag od then
         bind_action (dirty_at cache_index) (\<lambda>d.
         bind_action
           (if tag \<in> d then
              bind_action (report_writeback block_address) (\<lambda>_.
              dirty_remove cache_index tag)
            else ret ()) (\<lambda>_.
         bind_action (cache_pop cache_index tag) (\<lambda>_.
         report_eviction block_address)))
       else ret ())))"

text \<open>
  The body of \<open>evict\<close> after the victim has been selected. Its first statement reads the
  name \<open>victim_tag\<close>, which is bound nowhere (the selected tag is \<open>victim_block_tag\<close>),
  so evaluating that argument raises \<open>NameError\<close>.
\<close>

definition evict_victim :: "int \<Rightarrow> int \<Rightarrow> unit action" where
  "evict_victim cache_index victim_block_tag =
     bind_action (throw NameError) (\<lambda>victim_tag.
     bind_action
       (read (\<lambda>self. calculate_block_address_from_tag_index self victim_tag cache_index))
       (\<lambda>evicted_block.
     bind_action (dirty_at cache_index) (\<lambda>d.
     bind_action
       (if victim_block_tag \<in> d then
          bind_action (report_writeback evicted_block) (\<lambda>_.
          dirty_remove cache_index victim_block_tag)
        else ret ()) (\<lambda>_.
     bind_action (cache_pop cache_index victim_block_tag) (\<lambda>_.
     bind_action (report_eviction evicted_block) (\<lambda>_.
     bind_action
       (read (\<lambda>self. calculate_block_address_from_tag_index self victim_block_tag cache_index))
       (\<lambda>evicted_block'.
     invalidate evicted_block')))))))"

definition evict :: "int \<Rightarrow> unit action" where
  "evict cache_index =
     bind_action (read eviction_policy) (\<lambda>policy.
       if policy = ''FIFO'' then
         bind_action (cache_at cache_index) (\<lambda>od.
         bind_action (eval_pure (\<lambda>_. od_first od)) (\<lambda>(victim_block_tag, _).
         evict_victim cache_index victim_block_tag))
       else if policy = ''LRU'' then
         bind_action (cache_at cache_index) (\<lambda>od.
         bind_action (eval_pure (\<lambda>_. od_first od)) (\<lambda>(victim_block_tag, _).
         evict_victim cache_index victim_block_tag))
       else if policy = ''MRU'' then
         bind_action (cache_at cache_index) (\<lambda>od.
         bind_action (eval_pure (\<lambda>_. od_last od)) (\<lambda>(victim_block_tag, _).
         evict_victim cache_index victim_block_tag))
       else ret ())"

definition access :: "string \<Rightarrow> int \<Rightarrow> unit action" where
  "access operation address =
     bind_action (eval_pure (\<lambda>self. calculate_index self address)) (\<lambda>cache_index.
     bind_action (eval_pure (\<lambda>self. calculate_tag self address)) (\<lambda>tag.
     bind_action (eval_pure (\<lambda>self. calculate_block_address self address)) (\<lambda>block_address.
     bind_action (cache_at cache_index) (\<lambda>od.
       if od_contains tag od then
         bind_action (report_hit address) (\<lambda>_.
         bind_action (read eviction_policy) (\<lambda>policy.
         bind_action
           (if policy = ''LRU'' then cache_move_to_end cache_index tag else ret ()) (\<lambda>_.
         if operation = ''W'' then dirty_add cache_index tag else ret ())))
       else
         bind_action (report_miss address) (\<lambda>_.
         bind_action (cache_at cache_index) (\<lambda>od'.
         bind_action (read associativity) (\<lambda>ways.
         bind_action
           (if ways \<le> int (length od') then evict cache_index else ret ()) (\<lambda>_.
         bind_action (cache_setitem cache_index tag block_address) (\<lambda>_.
         if operation = ''W'' then dirty_add cache_index tag else ret ())))))))))"

subsection \<open>Sequences of accesses, reachable states, and the store of levels\<close>

text \<open>
  A driver feeds the accesses of a trace to a level one after the other; an exception
  raised by one access ends the run.
\<close>

fun accesses :: "(string \<times> int) list \<Rightarrow> unit action" where
  "accesses [] = ret ()"
| "accesses (request # trace) =
     bind_action (access (fst request) (snd request)) (\<lambda>_. accesses trace)"

text \<open>
  The geometry and the shape of the dictionaries that \<open>__init__\<close> sets up for a positive
  block size and at least one set: both dictionaries have every index of
  \<open>range(num_sets)\<close> as a key.
\<close>

definition well_formed :: "cache_level \<Rightarrow> bool" where
  "well_formed self \<longleftrightarrow>
     0 < block_size self \<and> 0 < num_sets self \<and>
     (\<forall>i \<in> {0..<num_sets self}. cache self i \<noteq> None \<and> dirty_bits self i \<noteq> None)"

text \<open>The policies that \<open>evict\<close> recognises.\<close>

definition known_policy :: "string \<Rightarrow> bool" where
  "known_policy policy \<longleftrightarrow> policy = ''FIFO'' \<or> policy = ''LRU'' \<or> policy = ''MRU''"

text \<open>
  The levels of a hierarchy live in a store, addressed by the references held in
  \<open>higher_level\<close> and \<open>lower_level\<close>. Calling a method on the object behind a reference
  updates that object in the store and leaves every other object as it is, unless the
  method itself calls through a reference.
\<close>

type_synonym hierarchy = "nat \<rightharpoonup> cache_level"

definition call_method :: "nat \<Rightarrow> 'a action \<Rightarrow> hierarchy \<Rightarrow> (error + 'a) \<times> hierarchy" where
  "call_method r m h =
     (case h r of
        None \<Rightarrow> (Inl AttributeError, h)
      | Some self \<Rightarrow> (case m self of (res, self') \<Rightarrow> (res, h(r \<mapsto> self'))))"

text \<open>
  A freshly constructed level with no neighbours, for the given geometry and policy
  (meaningful where \<open>__init__\<close> does not raise).
\<close>

definition new_level :: "int \<Rightarrow> int \<Rightarrow> int \<Rightarrow> string \<Rightarrow> cache_level" where
  "new_level size_arg block_size_arg ways policy =
     projr (init size_arg block_size_arg ways policy ''WB'' ''L1'' None None)"

section \<open>Unfolding rules and basic facts\<close>

lemmas pure_defs = bind_err_def py_floordiv_def py_mod_def calculate_index_def calculate_tag_def
  calculate_block_address_def calculate_block_address_from_tag_index_def

lemmas monad_defs = bind_action_def eval_pure_def read_def ret_def throw_def

lemmas dict_defs = cache_at_def dirty_at_def store_cache_def store_dirty_def cache_setitem_def
  cache_move_to_end_def cache_pop_def dirty_add_def dirty_remove_def
  od_contains_def od_first_def od_last_def od_move_to_end_def od_pop_def

lemmas report_defs = report_hit_def report_miss_def report_eviction_def report_writeback_def

lemmas method_defs = access_def evict_def evict_victim_def invalidate_def is_dirty_def

lemmas run_defs = init_def new_level_def pure_defs monad_defs dict_defs report_defs method_defs

section \<open>Address decomposition\<close>

lemma block_address_as_multiple: "(a::int) - a mod b = a div b * b"
  by (simp add: minus_mod_eq_div_mult)

lemma rebuild_block_address:
  assumes "0 < n"
  shows "(a div (b * n) * n + a div b mod n) * b = a - a mod (b::int)"
proof -
  have "a div (b * n) = a div b div n"
    using assms by (simp add: zdiv_zmult2_eq)
  then have "a div (b * n) * n + a div b mod n = a div b"
    by simp
  then show ?thesis
    by (simp add: block_address_as_multiple)
qed

text \<open>
  C1. With a positive block size and at least one set, the tag and the index of an
  address are computed without error, and rebuilding a block address from them gives
  the block address of the address itself. The address may be any integer, in
  particular any non-negative one.
\<close>

theorem address_round_trip:
  assumes "0 < block_size self" and "1 \<le> num_sets self"
  shows "\<exists>t i b. calculate_tag self a = Inr t \<and> calculate_index self a = Inr i
           \<and> calculate_block_address self a = Inr b
           \<and> calculate_block_address_from_tag_index self t i = b"
proof -
  have n: "0 < num_sets self" using assms(2) by simp
  then have "block_size self * num_sets self \<noteq> 0" using assms(1) by simp
  then show ?thesis
    using assms(1) n
    by (simp add: calculate_tag_def calculate_index_def calculate_block_address_def
        calculate_block_address_from_tag_index_def py_floordiv_def py_mod_def bind_err_def
        rebuild_block_address)
qed


theorem address_round_trip_witness:
  "0 < block_size (new_level 64 16 2 ''FIFO'') \<and> 1 \<le> num_sets (new_level 64 16 2 ''FIFO'')
   \<and> calculate_tag (new_level 64 16 2 ''FIFO'') 37 = Inr 1
   \<and> calculate_index (new_level 64 16 2 ''FIFO'') 37 = Inr 0
   \<and> calculate_block_address (new_level 64 16 2 ''FIFO'') 37 = Inr 32
   \<and> calculate_block_address_from_tag_index (new_level 64 16 2 ''FIFO'') 1 0 = 32"
  using address_round_trip [of "new_level 64 16 2 ''FIFO''" 37]
  by (simp add: run_defs)

section \<open>Helper facts about the dictionaries and the methods\<close>


lemma block_tag_same:
  assumes "0 < b" and "0 < n"
  shows "(a - a mod b) div (b * n) = a div (b * (n::int))"
proof -
  have "(a - a mod b) div (b * n) = (a div b * b) div b div n"
    using assms by (simp add: zdiv_zmult2_eq block_address_as_multiple)
  also have "\<dots> = a div b div n" using assms by simp
  also have "\<dots> = a div (b * n)" using assms by (simp add: zdiv_zmult2_eq)
  finally show ?thesis .
qed

lemma block_index_same:
  assumes "0 < b"
  shows "(a - a mod b) div b = a div (b::int)"
  using assms by (simp add: block_address_as_multiple)

lemma map_of_contains: "k \<in> fst ` set od \<Longrightarrow> \<exists>v. map_of od k = Some v"
  by (metis map_of_eq_None_iff not_Some_eq)

lemma evict_known_policy_raises:
  assumes "known_policy (eviction_policy self)"
  shows "\<exists>e. evict cache_index self = (Inl e, self)"
  using assms
  by (auto simp: known_policy_def evict_def evict_victim_def monad_defs cache_at_def od_first_def od_last_def
      split: option.splits list.splits prod.splits)



lemma length_od_setitem: "length (od_setitem k v od) \<le> Suc (length od)"
  by (induction od) auto

lemma length_without_key:
  assumes "map_of od k = Some v"
  shows "length (filter (\<lambda>p. fst p \<noteq> k) od) < length od"
proof -
  from assms have "(k, v) \<in> set od" by (rule map_of_SomeD)
  then show ?thesis by (intro length_filter_less [of "(k, v)"]) simp_all
qed

lemma access_keeps_capacity:
  assumes policy: "known_policy (eviction_policy self)"
    and cap: "\<forall>j od. cache self j = Some od \<longrightarrow> int (length od) \<le> associativity self"
    and run: "access operation address self = (res, self')"
  shows "eviction_policy self' = eviction_policy self \<and> associativity self' = associativity self
         \<and> (\<forall>j od. cache self' j = Some od \<longrightarrow> int (length od) \<le> associativity self')"
proof (cases "calculate_index self address")
  case (Inl e)
  with run cap show ?thesis by (auto simp: access_def monad_defs)
next
  case i: (Inr i)
  show ?thesis
  proof (cases "calculate_tag self address")
    case (Inl e)
    with run cap i show ?thesis by (auto simp: access_def monad_defs)
  next
    case t: (Inr t)
    show ?thesis
    proof (cases "calculate_block_address self address")
      case (Inl e)
      with run cap i t show ?thesis by (auto simp: access_def monad_defs)
    next
      case ba: (Inr ba)
      show ?thesis
      proof (cases "cache self i")
        case None
        with run cap i t ba show ?thesis by (auto simp: access_def monad_defs cache_at_def)
      next
        case od: (Some od)
        with cap have len: "int (length od) \<le> associativity self" by simp
        show ?thesis
        proof (cases "od_contains t od")
          case True
          then have "t \<in> fst ` set od" by (simp add: od_contains_def)
          from map_of_contains [OF this] obtain v where v: "map_of od t = Some v" ..
          have shorter: "int (length (filter (\<lambda>p. fst p \<noteq> t) od)) + 1 \<le> associativity self"
            using length_without_key [OF v] len by simp
          from run i t ba od True v have
            "eviction_policy self' = eviction_policy self \<and> associativity self' = associativity self
             \<and> (cache self' = cache self
                \<or> cache self' = (cache self)(i \<mapsto> filter (\<lambda>p. fst p \<noteq> t) od @ [(t, v)]))"
            by (auto simp: access_def monad_defs dict_defs report_defs
                split: if_splits option.splits)
          with cap shorter show ?thesis by (auto split: if_splits)
        next
          case False
          let ?s1 = "self\<lparr>reports := reports self @ [Miss address]\<rparr>"
          show ?thesis
          proof (cases "associativity self \<le> int (length od)")
            case True
            from policy have "known_policy (eviction_policy ?s1)" by simp
            from evict_known_policy_raises [OF this] obtain e where "evict i ?s1 = (Inl e, ?s1)" ..
            with run i t ba od False True have "self' = ?s1"
              by (simp add: access_def monad_defs cache_at_def od_contains_def report_miss_def)
            with cap show ?thesis by simp
          next
            case room: False
            with run i t ba od False have
              "eviction_policy self' = eviction_policy self \<and> associativity self' = associativity self
               \<and> cache self' = (cache self)(i \<mapsto> od_setitem t ba od)"
              by (auto simp: access_def monad_defs dict_defs report_defs
                  split: if_splits option.splits)
            moreover have "int (length (od_setitem t ba od)) \<le> associativity self"
              using length_od_setitem [of t ba od] room by simp
            ultimately show ?thesis using cap by (auto split: if_splits)
          qed
        qed
      qed
    qed
  qed
qed

lemma accesses_keep_capacity:
  assumes "known_policy (eviction_policy self)"
    and "\<forall>j od. cache self j = Some od \<longrightarrow> int (length od) \<le> associativity self"
    and "accesses trace self = (res, self')"
  shows "associativity self' = associativity self
         \<and> (\<forall>j od. cache self' j = Some od \<longrightarrow> int (length od) \<le> associativity self')"
  using assms
proof (induction trace arbitrary: self)
  case Nil
  then show ?case by (simp add: ret_def)
next
  case (Cons request trace)
  obtain r s1 where step: "access (fst request) (snd request) self = (r, s1)"
    by (cases "access (fst request) (snd request) self")
  from access_keeps_capacity [OF Cons.prems(1,2) step]
  have s1: "eviction_policy s1 = eviction_policy self" "associativity s1 = associativity self"
    "\<forall>j od. cache s1 j = Some od \<longrightarrow> int (length od) \<le> associativity s1"
    by blast+
  show ?case
  proof (cases r)
    case (Inl e)
    with step Cons.prems(3) have "self' = s1" by (simp add: bind_action_def)
    with s1 show ?thesis by simp
  next
    case (Inr u)
    with step Cons.prems(3) have "accesses trace s1 = (res, self')" by (simp add: bind_action_def)
    moreover from s1(1) Cons.prems(1) have "known_policy (eviction_policy s1)" by simp
    ultimately show ?thesis using Cons.IH s1(2,3) by metis
  qed
qed

text \<open>
  \<open>evict\<close> never changes the object, and an access keeps the geometry and the keys of
  both dictionaries: every state reached from a well-formed level is well-formed.
\<close>

lemma evict_leaves_state: "snd (evict cache_index self) = self"
  by (simp add: evict_def evict_victim_def monad_defs cache_at_def od_first_def od_last_def
      split: option.splits list.splits prod.splits)

lemma well_formed_init:
  assumes "init s b w policy wp name hi lo = Inr self" and "0 < b" and "0 < num_sets self"
  shows "well_formed self"
  using assms by (auto simp: init_def bind_err_def py_floordiv_def well_formed_def split: if_splits)

lemma evict_result_state:
  assumes "evict cache_index self = (res, self')"
  shows "self' = self"
  using evict_leaves_state [of cache_index self] assms by simp

lemma access_frame:
  assumes "access operation address self = (res, self')"
  shows "block_size self' = block_size self \<and> num_sets self' = num_sets self
         \<and> dom (cache self') = dom (cache self) \<and> dom (dirty_bits self') = dom (dirty_bits self)"
  using assms
  by (auto simp: access_def monad_defs dict_defs report_defs
      split: sum.splits option.splits if_splits prod.splits dest!: evict_result_state)

lemma well_formed_access:
  assumes "well_formed self"
  shows "well_formed (snd (access operation address self))"
proof -
  obtain res self' where run: "access operation address self = (res, self')"
    by (cases "access operation address self")
  from access_frame [OF run] assms show ?thesis
    unfolding run well_formed_def by (auto simp: dom_def set_eq_iff)
qed

section \<open>The example of three accesses\<close>

text \<open>
  C2 (corrected statement). A level of 64 bytes with blocks of 16 bytes and 2 ways has 2 sets.
  Addresses 0 and 32 go to set 0 and address 16 goes to set 1, so after the accesses
  0, 16, 32 set 0 holds two tags, which is its capacity: whatever the three
  operations are, the run completes, the reports are three misses and nothing else,
  and the blocks of addresses 0 and 32 are both resident.
\<close>

theorem three_accesses_three_misses:
  "fst (accesses [(op1, 0), (op2, 16), (op3, 32)] (new_level 64 16 2 ''FIFO'')) = Inr ()
   \<and> reports (snd (accesses [(op1, 0), (op2, 16), (op3, 32)] (new_level 64 16 2 ''FIFO'')))
       = [Miss 0, Miss 16, Miss 32]
   \<and> cache (snd (accesses [(op1, 0), (op2, 16), (op3, 32)] (new_level 64 16 2 ''FIFO''))) 0
       = Some [(0, 0), (1, 32)]
   \<and> cache (snd (accesses [(op1, 0), (op2, 16), (op3, 32)] (new_level 64 16 2 ''FIFO''))) 1
       = Some [(0, 16)]"
  by (simp add: run_defs)

text \<open>The third access reports no eviction of the block at address 0.\<close>

theorem three_accesses_no_eviction:
  "num_sets (new_level 64 16 2 ''FIFO'') = 2
   \<and> Eviction 0 \<notin> set (reports (snd
        (accesses [(''R'', 0), (''R'', 16), (''R'', 32)] (new_level 64 16 2 ''FIFO''))))"
  by (simp add: run_defs)

section \<open>Eviction\<close>

text \<open>
  C3. Under each of the three recognised policies, evicting from a set that holds a
  block raises \<open>NameError\<close> and removes nothing; here on a one-set, one-way level
  after a read of address 0.
\<close>

theorem evict_raises_name_error:
  "evict 0 (snd (access ''R'' 0 (new_level 16 16 1 ''FIFO'')))
     = (Inl NameError, snd (access ''R'' 0 (new_level 16 16 1 ''FIFO'')))
   \<and> evict 0 (snd (access ''R'' 0 (new_level 16 16 1 ''LRU'')))
     = (Inl NameError, snd (access ''R'' 0 (new_level 16 16 1 ''LRU'')))
   \<and> evict 0 (snd (access ''R'' 0 (new_level 16 16 1 ''MRU'')))
     = (Inl NameError, snd (access ''R'' 0 (new_level 16 16 1 ''MRU'')))
   \<and> cache (snd (access ''R'' 0 (new_level 16 16 1 ''FIFO''))) 0 = Some [(0, 0)]"
  by (simp add: run_defs)

text \<open>
  C8. A write to address 0 on a one-set, one-way FIFO level, followed by a read of
  address 16 (another tag of the same set): the second access raises \<open>NameError\<close> in
  \<open>evict\<close>. No writeback and no eviction is reported, block 0 stays resident and
  \<open>is_dirty\<close> still answers true for it.
\<close>

theorem write_then_conflict_no_writeback:
  "fst (accesses [(''W'', 0), (''R'', 16)] (new_level 16 16 1 ''FIFO'')) = Inl NameError
   \<and> reports (snd (accesses [(''W'', 0), (''R'', 16)] (new_level 16 16 1 ''FIFO'')))
       = [Miss 0, Miss 16]
   \<and> cache (snd (accesses [(''W'', 0), (''R'', 16)] (new_level 16 16 1 ''FIFO''))) 0
       = Some [(0, 0)]
   \<and> is_dirty (snd (accesses [(''W'', 0), (''R'', 16)] (new_level 16 16 1 ''FIFO''))) 0
       = Inr True"
  by (simp add: run_defs)

section \<open>Block refills and recency\<close>

text \<open>
  C4. On an LRU level with one set of two ways that holds the blocks of addresses 0
  and 16 in this order, a \<open>B\<close> access to address 0 hits and moves tag 0 behind tag 1.
\<close>

theorem block_refill_reorders_lru:
  "cache (snd (accesses [(''R'', 0), (''R'', 16)] (new_level 32 16 2 ''LRU''))) 0
     = Some [(0, 0), (1, 16)]
   \<and> fst (access ''B'' 0 (snd (accesses [(''R'', 0), (''R'', 16)] (new_level 32 16 2 ''LRU''))))
     = Inr ()
   \<and> reports (snd (access ''B'' 0
        (snd (accesses [(''R'', 0), (''R'', 16)] (new_level 32 16 2 ''LRU'')))))
     = [Miss 0, Miss 16, Hit 0]
   \<and> cache (snd (access ''B'' 0
        (snd (accesses [(''R'', 0), (''R'', 16)] (new_level 32 16 2 ''LRU''))))) 0
     = Some [(1, 16), (0, 0)]"
  by (simp add: run_defs)

section \<open>Operation codes\<close>




section \<open>Construction\<close>

text \<open>
  C6 (corrected statement). \<open>__init__\<close> checks nothing about the geometry. It fails exactly
  when \<open>block_size * associativity\<close> is zero, with \<open>ZeroDivisionError\<close>; otherwise it
  succeeds and \<open>num_sets\<close> is the quotient of \<open>size\<close> by \<open>block_size * associativity\<close>
  rounded down, whether or not the division is exact.
\<close>

theorem init_truncates_num_sets:
  "(b * w = 0 \<longrightarrow> init s b w policy wp name hi lo = Inl ZeroDivisionError)
   \<and> (b * w \<noteq> 0 \<longrightarrow>
        (\<exists>self. init s b w policy wp name hi lo = Inr self
           \<and> num_sets self = s div (b * w) \<and> size_attr self = s
           \<and> block_size self = b \<and> associativity self = w))"
  by (simp add: init_def bind_err_def py_floordiv_def)

theorem init_truncates_num_sets_witness:
  "(16 * 2 \<noteq> (0::int))
   \<and> (\<exists>self. init 100 16 2 ''FIFO'' ''WB'' ''L1'' None None = Inr self
           \<and> num_sets self = 100 div (16 * 2) \<and> size_attr self = 100
           \<and> block_size self = 16 \<and> associativity self = 2)
   \<and> (0 * 2 = (0::int))
   \<and> init 64 0 2 ''FIFO'' ''WB'' ''L1'' None None = Inl ZeroDivisionError"
  using init_truncates_num_sets [of 16 2 100 "''FIFO''" "''WB''" "''L1''" None None]
    init_truncates_num_sets [of 0 2 64 "''FIFO''" "''WB''" "''L1''" None None]
  by simp

text \<open>A size of 100 bytes is no multiple of \<open>16 * 2\<close>, and the level is constructed with 3 sets.\<close>

theorem init_accepts_uneven_geometry:
  "100 mod (16 * 2) \<noteq> (0::int)
   \<and> \<not> isl (init 100 16 2 ''FIFO'' ''WB'' ''L1'' None None)
   \<and> num_sets (projr (init 100 16 2 ''FIFO'' ''WB'' ''L1'' None None)) = 3"
  by (simp add: init_def bind_err_def py_floordiv_def)

section \<open>Invalidation and the lower level\<close>

text \<open>
  C7. Two one-set, one-way levels, the upper at reference 0 with the lower at
  reference 1 as its \<open>lower_level\<close>. Both hold the block of address 0, dirty.
  Invalidating address 0 at the upper level completes, reports a writeback and an
  eviction there, and leaves the lower level untouched: its copy stays resident and
  dirty and it reports nothing.
\<close>

theorem invalidate_ignores_lower_level:
  "lower_level (snd (access ''W'' 0 (projr (init 16 16 1 ''FIFO'' ''WB'' ''L1'' None (Some 1))))) = Some 1
   \<and> fst (call_method 0 (invalidate 0)
        [0 \<mapsto> snd (access ''W'' 0 (projr (init 16 16 1 ''FIFO'' ''WB'' ''L1'' None (Some 1)))),
         1 \<mapsto> snd (access ''W'' 0 (projr (init 16 16 1 ''FIFO'' ''WB'' ''L2'' (Some 0) None)))])
      = Inr ()
   \<and> map_option reports (snd (call_method 0 (invalidate 0)
        [0 \<mapsto> snd (access ''W'' 0 (projr (init 16 16 1 ''FIFO'' ''WB'' ''L1'' None (Some 1)))),
         1 \<mapsto> snd (access ''W'' 0 (projr (init 16 16 1 ''FIFO'' ''WB'' ''L2'' (Some 0) None)))]) 0)
      = Some [Miss 0, Writeback 0, Eviction 0]
   \<and> snd (call_method 0 (invalidate 0)
        [0 \<mapsto> snd (access ''W'' 0 (projr (init 16 16 1 ''FIFO'' ''WB'' ''L1'' None (Some 1)))),
         1 \<mapsto> snd (access ''W'' 0 (projr (init 16 16 1 ''FIFO'' ''WB'' ''L2'' (Some 0) None)))]) 1
      = Some (snd (access ''W'' 0 (projr (init 16 16 1 ''FIFO'' ''WB'' ''L2'' (Some 0) None))))
   \<and> cache (snd (access ''W'' 0 (projr (init 16 16 1 ''FIFO'' ''WB'' ''L2'' (Some 0) None)))) 0
      = Some [(0, 0)]
   \<and> is_dirty (snd (access ''W'' 0 (projr (init 16 16 1 ''FIFO'' ''WB'' ''L2'' (Some 0) None)))) 0
      = Inr True
   \<and> reports (snd (access ''W'' 0 (projr (init 16 16 1 ''FIFO'' ''WB'' ''L2'' (Some 0) None))))
      = [Miss 0]"
  by (simp add: call_method_def run_defs)

section \<open>Capacity\<close>

text \<open>
  C9 (corrected statement). For a level constructed with one of the policies FIFO, LRU, MRU
  and a non-negative associativity, after every sequence of accesses, whether it ran
  to its end or was ended by an exception, every set holds at most \<open>associativity\<close>
  tags.
\<close>

theorem capacity_after_accesses:
  assumes "init size_arg block_size_arg ways policy write_policy_arg name hi lo = Inr self0"
    and "known_policy policy" and "0 \<le> ways"
    and "accesses trace self0 = (res, self)"
    and "cache self i = Some od"
  shows "int (length od) \<le> ways"
proof -
  from assms(1) have start: "eviction_policy self0 = policy" "associativity self0 = ways"
    "\<forall>j od. cache self0 j = Some od \<longrightarrow> od = []"
    by (auto simp: init_def bind_err_def py_floordiv_def split: if_splits)
  have cap0: "\<forall>j od. cache self0 j = Some od \<longrightarrow> int (length od) \<le> associativity self0"
  proof (intro allI impI)
    fix j od'
    assume "cache self0 j = Some od'"
    with start(3) have "od' = []" by blast
    with assms(3) start(2) show "int (length od') \<le> associativity self0" by simp
  qed
  from assms(2) start(1) have "known_policy (eviction_policy self0)" by simp
  then have "associativity self = associativity self0
         \<and> (\<forall>j od. cache self j = Some od \<longrightarrow> int (length od) \<le> associativity self)"
    using cap0 assms(4) by (rule accesses_keep_capacity)
  with assms(5) start(2) show ?thesis by metis
qed

text \<open>
  A run that reaches \<open>evict\<close>: on a one-way FIFO level the second of two accesses to the
  same set misses on a full set and is ended by \<open>NameError\<close>; the set still holds one tag.
\<close>

theorem capacity_after_accesses_witness:
  "init 16 16 1 ''FIFO'' ''WB'' ''L1'' None None = Inr (new_level 16 16 1 ''FIFO'')
   \<and> known_policy ''FIFO'' \<and> (0::int) \<le> 1
   \<and> accesses [(''W'', 0), (''R'', 16)] (new_level 16 16 1 ''FIFO'')
      = (Inl NameError, snd (accesses [(''W'', 0), (''R'', 16)] (new_level 16 16 1 ''FIFO'')))
   \<and> cache (snd (accesses [(''W'', 0), (''R'', 16)] (new_level 16 16 1 ''FIFO''))) 0
      = Some [(0, 0)]
   \<and> int (length [(0::int, 0::int)]) \<le> 1"
proof -
  let ?s = "snd (accesses [(''W'', 0), (''R'', 16)] (new_level 16 16 1 ''FIFO''))"
  have a: "init 16 16 1 ''FIFO'' ''WB'' ''L1'' None None = Inr (new_level 16 16 1 ''FIFO'')"
    by (simp add: init_def new_level_def bind_err_def py_floordiv_def)
  have b: "known_policy ''FIFO''" by (simp add: known_policy_def)
  have c: "(0::int) \<le> 1" by simp
  have "fst (accesses [(''W'', 0), (''R'', 16)] (new_level 16 16 1 ''FIFO'')) = Inl NameError"
    by (simp add: run_defs)
  then have d: "accesses [(''W'', 0), (''R'', 16)] (new_level 16 16 1 ''FIFO'')
                  = (Inl NameError, ?s)"
    by (simp add: prod_eq_iff)
  have e: "cache ?s 0 = Some [(0, 0)]"
    by (simp add: run_defs)
  from capacity_after_accesses [OF a b c d e] a b c d e show ?thesis by simp
qed

text \<open>
  With a policy that \<open>evict\<close> does not recognise, a one-way set holds two tags after two
  accesses to it.
\<close>

theorem unknown_policy_exceeds_capacity:
  "fst (accesses [(''R'', 0), (''R'', 16)] (new_level 16 16 1 ''RANDOM'')) = Inr ()
   \<and> cache (snd (accesses [(''R'', 0), (''R'', 16)] (new_level 16 16 1 ''RANDOM''))) 0
      = Some [(0, 0), (1, 16)]
   \<and> associativity (snd (accesses [(''R'', 0), (''R'', 16)] (new_level 16 16 1 ''RANDOM''))) = 1"
  by (simp add: run_defs)

section \<open>Dirty queries\<close>

text \<open>
  C10. On a well-formed level, \<open>is_dirty\<close> returns a boolean for every address, and
  the same boolean for the block address of that address.
\<close>

theorem is_dirty_of_containing_block:
  assumes "well_formed self"
  shows "\<exists>d. is_dirty self a = Inr d
           \<and> bind_err (calculate_block_address self a) (is_dirty self) = Inr d"
proof -
  from assms have b: "0 < block_size self" and n: "0 < num_sets self"
    and keys: "\<forall>i\<in>{0..<num_sets self}. dirty_bits self i \<noteq> None"
    by (simp_all add: well_formed_def)
  have "a div block_size self mod num_sets self \<in> {0..<num_sets self}"
    using n by simp
  with keys obtain d where d: "dirty_bits self (a div block_size self mod num_sets self) = Some d"
    by blast
  have nz: "block_size self \<noteq> 0" "num_sets self \<noteq> 0" using b n by simp_all
  show ?thesis
    using d nz by (simp add: is_dirty_def pure_defs block_tag_same [OF b n] block_index_same [OF b])
qed


theorem is_dirty_of_containing_block_witness:
  "well_formed (snd (access ''W'' 32 (new_level 64 16 2 ''FIFO'')))
   \<and> is_dirty (snd (access ''W'' 32 (new_level 64 16 2 ''FIFO''))) 37 = Inr True
   \<and> bind_err (calculate_block_address (snd (access ''W'' 32 (new_level 64 16 2 ''FIFO''))) 37)
        (is_dirty (snd (access ''W'' 32 (new_level 64 16 2 ''FIFO'')))) = Inr True"
proof -
  have wf: "well_formed (snd (access ''W'' 32 (new_level 64 16 2 ''FIFO'')))"
    by (simp add: well_formed_def run_defs)
  have "is_dirty (snd (access ''W'' 32 (new_level 64 16 2 ''FIFO''))) 37 = Inr True"
    by (simp add: run_defs)
  with is_dirty_of_containing_block [OF wf, of 37] wf show ?thesis by auto
qed

end
